theory Spec2Isabelle
  imports Main "HOL-Library.AList"
begin

section \<open>Plain data: positions, ranges, JSON values\<close>

text \<open>
  A JavaScript value as \<open>toJSON\<close> can produce it. \<open>JLive c\<close> stands for a reference to
  a live object of class \<open>c\<close> (a \<open>Range\<close>, the \<open>MarkerCollection\<close>): it is what a shallow
  copy of an object holds for a field that is not plain data. An object is the list of
  its own properties in creation order.
\<close>

datatype json =
    JNull
  | JBool bool
  | JNum int
  | JStr string
  | JArr "json list"
  | JObj "(string \<times> json) list"
  | JLive string

text \<open>
  Modelled from the spec: \<open>Position\<close> and \<open>Range\<close> (position.js and range.js are not
  among the sources). A position is a root and a path of non-negative offsets; the root
  element is identified by its root name, which is what the serialized form carries
  (\<open>{root: rootName, path: [...]}\<close>). A range is an ordered pair of positions.
\<close>

record position =
  root :: string
  path :: "nat list"

record mrange =
  range_start :: position
  range_end :: position


datatype error =
    RootNotFound string
  | IllTyped string
  | NodeNotFoundInParentError
  | NodeListInsertNodesNotNode
  | NonFlatRangeError string
  | PositionOutOfBounds







definition createFromRange :: "mrange \<Rightarrow> mrange" where
  "createFromRange r = \<lparr>range_start = range_start r, range_end = range_end r\<rparr>"

section \<open>MarkerOperation\<close>

text \<open>
  The fields the constructor sets. \<open>baseVersion\<close> is a number or \<open>null\<close> (\<open>None\<close>);
  document versions are operation counts, far below the range where a JavaScript number
  stops being an exact integer, so they are integers here. \<open>markers\<close> is the identity of
  the marker collection the operation is bound to.
\<close>

record markerOperation =
  baseVersion :: "int option"
  name :: string
  oldRange :: "mrange option"
  newRange :: "mrange option"
  affectsData :: bool
  markers :: nat

text \<open>The constructor: the ranges are copied when they are not \<open>null\<close>.\<close>

definition MarkerOperation ::
  "string \<Rightarrow> mrange option \<Rightarrow> mrange option \<Rightarrow> nat \<Rightarrow> int option \<Rightarrow> bool \<Rightarrow> markerOperation" where
  "MarkerOperation nm oldR newR mks bv ad =
     \<lparr>baseVersion = bv,
      name = nm,
      oldRange = (case oldR of Some r \<Rightarrow> Some (createFromRange r) | None \<Rightarrow> None),
      newRange = (case newR of Some r \<Rightarrow> Some (createFromRange r) | None \<Rightarrow> None),
      affectsData = ad,
      markers = mks\<rparr>"

text \<open>JavaScript's \<open>baseVersion + 1\<close>: \<open>null\<close> counts as 0 in an addition.\<close>

fun js_plus_one :: "int option \<Rightarrow> int option" where
  "js_plus_one None = Some 1"
| "js_plus_one (Some v) = Some (v + 1)"

text \<open>\<open>clone\<close> and \<open>getReversed\<close>, as the source builds them with the constructor.\<close>

definition clone :: "markerOperation \<Rightarrow> markerOperation" where
  "clone op = MarkerOperation (name op) (oldRange op) (newRange op) (markers op) (baseVersion op) (affectsData op)"

definition getReversed :: "markerOperation \<Rightarrow> markerOperation" where
  "getReversed op =
     MarkerOperation (name op) (newRange op) (oldRange op) (markers op)
       (js_plus_one (baseVersion op)) (affectsData op)"












section \<open>Node.getIndex\<close>

text \<open>
  JavaScript objects are compared by identity, so a node carries one (\<open>node_id\<close>), and
  an element is seen through the identities in its children array. \<open>parent\<close> is the
  node's back-reference: \<open>None\<close> is \<open>null\<close>.
\<close>

record element =
  element_name :: string
  children :: "nat list"

record node =
  node_id :: nat
  parent :: "element option"

text \<open>\<open>Array.prototype.indexOf\<close>: the first index holding the value, or \<open>-1\<close>.\<close>

fun indexOf :: "'a list \<Rightarrow> 'a \<Rightarrow> int" where
  "indexOf [] x = - 1"
| "indexOf (y # ys) x =
     (if y = x then 0 else (let r = indexOf ys x in if r = - 1 then - 1 else r + 1))"

text \<open>
  Modelled from the spec: \<open>Element.getChildIndex\<close> (element.js is not among the sources).
  \<open>Node.getIndex\<close> compares its answer with \<open>-1\<close>, the answer of \<open>indexOf\<close> on the
  children array for a node that is not a child; the spec calls that failed lookup
  tree corruption.
\<close>

definition getChildIndex :: "element \<Rightarrow> node \<Rightarrow> int" where
  "getChildIndex e n = indexOf (children e) (node_id n)"

text \<open>
  \<open>Node.getIndex\<close>: \<open>null\<close> (\<open>Inr None\<close>) without a parent, the error when the parent's
  answer is \<open>-1\<close>, the position otherwise.
\<close>

definition getIndex :: "node \<Rightarrow> error + int option" where
  "getIndex this =
     (case parent this of
        None \<Rightarrow> Inr None
      | Some p \<Rightarrow>
          (let pos = getChildIndex p this
           in if pos = - 1 then Inl NodeNotFoundInParentError else Inr (Some pos)))"

section \<open>NodeList.insertNodes\<close>

text \<open>
  A value handed to \<open>insertNodes\<close>: an instance of \<open>Node\<close> (with its identity) or
  anything else. The node list is its \<open>_nodes\<close> array.
\<close>

datatype item = NodeInstance nat | NotANode json

fun instanceofNode :: "item \<Rightarrow> bool" where
  "instanceofNode (NodeInstance i) = True"
| "instanceofNode (NotANode j) = False"

text \<open>
  The \<open>nodes\<close> argument is an iterable, and the method traverses it twice: the
  \<open>for ... of\<close> loop of the validation, then the spread \<open>...nodes\<close> in the call of
  \<open>splice\<close>. An iterable is what the two traversals yield. An array, a \<open>Set\<close> or a node
  list yields the same values both times; a one-shot iterable (a generator object, the
  iterator \<open>arr.values()\<close>) is spent by the first traversal and yields nothing the
  second time.
\<close>

datatype iterable = Iterable (first_pass: "item list") (second_pass: "item list")

definition arrayOf :: "item list \<Rightarrow> iterable" where
  "arrayOf vs = Iterable vs vs"

definition generatorOf :: "item list \<Rightarrow> iterable" where
  "generatorOf vs = Iterable vs []"

text \<open>The validation loop: the first value that is not a node throws.\<close>

fun validation :: "item list \<Rightarrow> error option" where
  "validation [] = None"
| "validation (v # vs) =
     (if \<not> instanceofNode v then Some NodeListInsertNodesNotNode else validation vs)"

text \<open>
  \<open>arr.splice(start, 0, ...items)\<close>: a negative start counts from the end, and the
  start is clamped to the array.
\<close>

definition splice_insert :: "int \<Rightarrow> 'a list \<Rightarrow> 'a list \<Rightarrow> 'a list" where
  "splice_insert start items arr =
     (let len = int (length arr);
          k = (if start < 0 then max (len + start) 0 else min start len)
      in take (nat k) arr @ items @ drop (nat k) arr)"

text \<open>The outcome (an exception or a normal return) and the \<open>_nodes\<close> array afterwards.\<close>

definition insertNodes :: "int \<Rightarrow> iterable \<Rightarrow> item list \<Rightarrow> (error + unit) \<times> item list" where
  "insertNodes index nodes this_nodes =
     (case validation (first_pass nodes) of
        Some err \<Rightarrow> (Inl err, this_nodes)
      | None \<Rightarrow> (Inr (), splice_insert index (second_pass nodes) this_nodes))"

definition exampleParent :: element where
  "exampleParent = \<lparr>element_name = ''p'', children = [3, 5, 8]\<rparr>"

definition exampleChild :: node where
  "exampleChild = \<lparr>node_id = 5, parent = Some exampleParent\<rparr>"

definition exampleOrphan :: node where
  "exampleOrphan = \<lparr>node_id = 9, parent = Some exampleParent\<rparr>"

section \<open>compareArrays\<close>

text \<open>
  \<open>utils.compareArrays\<close>: the first index at which the arrays differ, or how they are
  related when they agree on their common length.
\<close>

datatype arrayRelation = Differ nat | SAME | PREFIX | EXTENSION

function compareArrays_loop :: "nat \<Rightarrow> nat \<Rightarrow> 'a list \<Rightarrow> 'a list \<Rightarrow> nat option" where
  "compareArrays_loop i minLen a b =
     (if i < minLen then
        (if a ! i \<noteq> b ! i then Some i else compareArrays_loop (Suc i) minLen a b)
      else None)"
  by pat_completeness auto
termination
  by (relation "measure (\<lambda>(i, minLen, a, b). minLen - i)") auto

declare compareArrays_loop.simps [simp del]

definition compareArrays :: "'a list \<Rightarrow> 'a list \<Rightarrow> arrayRelation" where
  "compareArrays a b =
     (let minLen = min (length a) (length b)
      in case compareArrays_loop 0 minLen a b of
           Some i \<Rightarrow> Differ i
         | None \<Rightarrow>
             if length a = length b then SAME
             else if length a < length b then PREFIX
             else EXTENSION)"

section \<open>LivePosition\<close>

text \<open>
  Modelled from the spec: \<open>LivePosition\<close> and the transformation of a position by an
  insertion (liveposition.js and position.js are not among the sources; the tests of
  \<open>LivePosition\<close> are). The spec's rules: an insertion in the same parent before the
  position shifts its offset by the inserted length; an insertion exactly at the
  position is decided by its stickiness (a position sticking to the previous content
  stays, one sticking to the next content moves); any other insertion leaves the offset
  alone. The tests add the case of an insertion in an ancestor, at or before the node on
  the position's path: that entry of the path is shifted. A live position sticks to the
  next content unless told otherwise, and replaces its coordinates by the transformed
  ones on every \<open>insert\<close> change, whose payload is the inserted range.
\<close>

datatype stickiness = STICKS_TO_NEXT | STICKS_TO_PREVIOUS

record livePosition = position +
  stickiness :: stickiness

definition LivePosition :: "string \<Rightarrow> nat list \<Rightarrow> stickiness option \<Rightarrow> livePosition" where
  "LivePosition r p s =
     \<lparr>root = r, path = p, stickiness = (case s of None \<Rightarrow> STICKS_TO_NEXT | Some x \<Rightarrow> x)\<rparr>"

definition getParentPath :: "'a position_scheme \<Rightarrow> nat list" where
  "getParentPath p = butlast (path p)"

definition offset :: "'a position_scheme \<Rightarrow> nat" where
  "offset p = last (path p)"

definition getTransformedByInsertion ::
  "'a position_scheme \<Rightarrow> position \<Rightarrow> nat \<Rightarrow> bool \<Rightarrow> 'a position_scheme" where
  "getTransformedByInsertion this insertPosition howMany insertBefore =
     (if root this \<noteq> root insertPosition then this
      else if compareArrays (getParentPath insertPosition) (getParentPath this) = SAME then
        (if offset insertPosition < offset this \<or> (offset insertPosition = offset this \<and> insertBefore)
         then this\<lparr>path := getParentPath this @ [offset this + howMany]\<rparr>
         else this)
      else if compareArrays (getParentPath insertPosition) (getParentPath this) = PREFIX then
        (let i = length (path insertPosition) - 1
         in if offset insertPosition \<le> path this ! i
            then this\<lparr>path := (path this)[i := path this ! i + howMany]\<rparr>
            else this)
      else this)"

definition transform_insert :: "livePosition \<Rightarrow> mrange \<Rightarrow> livePosition" where
  "transform_insert this r =
     (let howMany = offset (range_end r) - offset (range_start r);
          insertBefore = (stickiness this = STICKS_TO_NEXT)
      in getTransformedByInsertion this (range_start r) howMany insertBefore)"

definition rangeOfPaths :: "string \<Rightarrow> nat list \<Rightarrow> nat list \<Rightarrow> mrange" where
  "rangeOfPaths r s e = \<lparr>range_start = \<lparr>root = r, path = s\<rparr>, range_end = \<lparr>root = r, path = e\<rparr>\<rparr>"

section \<open>The model tree and the removal of a flat range\<close>

text \<open>
  Modelled from the spec: the tree primitives and \<open>_remove\<close> of
  src/model/operation/utils.js (the file is not among the sources; its tests are). A
  node is a \<open>Text\<close> with its data and attributes or an \<open>Element\<close> with its name,
  attributes and children; a text node takes as many offset units as it has characters,
  an element one. Attributes are key-value pairs with unique keys, compared as sets.
  \<open>_remove\<close> refuses a range that is not flat, detaches the nodes between the two offsets
  of the parent (a text node an offset falls into is split there, as the tests have
  it), and merges the two text nodes left touching at the boundary when their
  attributes are identical. It returns the detached nodes; the model returns the
  root's new children with them.
\<close>

type_synonym attrs = "(string \<times> json) list"

datatype mnode =
    Text string attrs
  | Element string attrs "mnode list"

fun offsetSize :: "mnode \<Rightarrow> nat" where
  "offsetSize (Text d a) = length d"
| "offsetSize (Element nm a kids) = 1"

text \<open>The children before an offset and from it on; \<open>None\<close> past the last offset.\<close>

fun splitAt :: "nat \<Rightarrow> mnode list \<Rightarrow> (mnode list \<times> mnode list) option" where
  "splitAt off [] = (if off = 0 then Some ([], []) else None)"
| "splitAt off (n # ns) =
     (if off = 0 then Some ([], n # ns)
      else if offsetSize n \<le> off then
        (case splitAt (off - offsetSize n) ns of
           None \<Rightarrow> None
         | Some (l, r) \<Rightarrow> Some (n # l, r))
      else
        (case n of
           Text d a \<Rightarrow> Some ([Text (take off d) a], Text (drop off d) a # ns)
         | Element nm a kids \<Rightarrow> None))"

text \<open>Joining two runs of siblings: the nodes that come to touch are merged when both are
  text with identical attributes.\<close>

fun joinNodes :: "mnode list \<Rightarrow> mnode list \<Rightarrow> mnode list" where
  "joinNodes [] r = r"
| "joinNodes [x] [] = [x]"
| "joinNodes [x] (y # r) =
     (case (x, y) of
        (Text d a, Text e b) \<Rightarrow> if set a = set b then Text (d @ e) a # r else x # y # r
      | _ \<Rightarrow> x # y # r)"
| "joinNodes (x # x' # l) r = x # joinNodes (x' # l) r"

definition removeChildren :: "nat \<Rightarrow> nat \<Rightarrow> mnode list \<Rightarrow> error + (mnode list \<times> mnode list)" where
  "removeChildren s e cs =
     (case splitAt s cs of
        None \<Rightarrow> Inl PositionOutOfBounds
      | Some (l, rest) \<Rightarrow>
          (case splitAt (e - s) rest of
             None \<Rightarrow> Inl PositionOutOfBounds
           | Some (removed, r) \<Rightarrow> Inr (joinNodes l r, removed)))"

text \<open>The child occupying an offset, with its siblings before and after.\<close>

fun childAtOffset :: "nat \<Rightarrow> mnode list \<Rightarrow> (mnode list \<times> mnode \<times> mnode list) option" where
  "childAtOffset off [] = None"
| "childAtOffset off (n # ns) =
     (if off < offsetSize n then Some ([], n, ns)
      else (case childAtOffset (off - offsetSize n) ns of
              None \<Rightarrow> None
            | Some (b, x, a) \<Rightarrow> Some (n # b, x, a)))"

text \<open>Running a change of a children list on the element a parent path leads to.\<close>

fun atParent ::
  "nat list \<Rightarrow> (mnode list \<Rightarrow> error + (mnode list \<times> mnode list)) \<Rightarrow> mnode list
     \<Rightarrow> error + (mnode list \<times> mnode list)" where
  "atParent [] f cs = f cs"
| "atParent (off # rest) f cs =
     (case childAtOffset off cs of
        Some (before, Element nm a kids, after) \<Rightarrow>
          (case atParent rest f kids of
             Inl err \<Rightarrow> Inl err
           | Inr (kids', removed) \<Rightarrow> Inr (before @ Element nm a kids' # after, removed))
      | _ \<Rightarrow> Inl PositionOutOfBounds)"

definition isFlat :: "mrange \<Rightarrow> bool" where
  "isFlat r = (compareArrays (getParentPath (range_start r)) (getParentPath (range_end r)) = SAME)"

definition utils_remove :: "mnode list \<Rightarrow> mrange \<Rightarrow> error + (mnode list \<times> mnode list)" where
  "utils_remove rootChildren r =
     (if \<not> isFlat r then Inl (NonFlatRangeError ''operation-utils-remove-range-not-flat'')
      else atParent (getParentPath (range_start r))
             (removeChildren (offset (range_start r)) (offset (range_end r))) rootChildren)"

text \<open>The document of the spec's scenarios, and the one of the tests of \<open>_remove\<close>.\<close>

definition scenarioRoot :: "mnode list" where
  "scenarioRoot =
     [Text ''foo'' [], Text ''bar'' [(''bold'', JBool True)], Element ''image'' [] [], Text ''xyz'' []]"

definition testRoot :: "mnode list" where
  "testRoot =
     [Text ''foo'' [], Text ''bar'' [(''bold'', JBool True)],
      Element ''image'' [(''src'', JStr ''img.jpg'')] [], Text ''xyz'' []]"

section \<open>Reversal of a marker operation\<close>

lemma createFromRange_id: "createFromRange r = r"
  by (simp add: createFromRange_def)

lemma MarkerOperation_fields:
  "MarkerOperation nm oldR newR mks bv ad =
     \<lparr>baseVersion = bv, name = nm, oldRange = oldR, newRange = newR, affectsData = ad, markers = mks\<rparr>"
  by (simp add: MarkerOperation_def createFromRange_id split: option.splits)

lemma clone_same: "clone op = op"
  by (simp add: clone_def MarkerOperation_fields)

text \<open>
  C2. \<open>getReversed\<close> of a marker operation with name \<open>n\<close>, old range \<open>o\<close>, new range \<open>r\<close>
  and base version \<open>v\<close> is a marker operation with the same name (and the same marker
  collection and \<open>affectsData\<close>), the two ranges swapped, and base version \<open>v + 1\<close>; for a
  \<open>null\<close> base version JavaScript's \<open>null + 1\<close> is \<open>1\<close>.
\<close>

theorem getReversed_swaps_ranges:
  "name (getReversed op) = name op
   \<and> oldRange (getReversed op) = newRange op
   \<and> newRange (getReversed op) = oldRange op
   \<and> baseVersion (getReversed op) = (case baseVersion op of Some v \<Rightarrow> Some (v + 1) | None \<Rightarrow> Some 1)
   \<and> affectsData (getReversed op) = affectsData op
   \<and> markers (getReversed op) = markers op"
  by (cases "baseVersion op") (simp_all add: getReversed_def MarkerOperation_fields)

section \<open>Serialization of a marker operation\<close>















section \<open>Index of a node in its parent\<close>

lemma indexOf_Cons_eq: "indexOf (x # ys) x = 0"
  by simp

lemma indexOf_Cons_neq:
  "y \<noteq> x \<Longrightarrow> indexOf (y # ys) x = (if indexOf ys x = - 1 then - 1 else indexOf ys x + 1)"
  by (simp add: Let_def)

lemma indexOf_ge: "- 1 \<le> indexOf xs x"
proof (induction xs)
  case Nil
  show ?case by simp
next
  case (Cons y ys)
  show ?case
  proof (cases "y = x")
    case True
    then show ?thesis by (simp only: indexOf_Cons_eq)
  next
    case False
    have "indexOf (y # ys) x = (if indexOf ys x = - 1 then - 1 else indexOf ys x + 1)"
      using False by (rule indexOf_Cons_neq)
    then show ?thesis using Cons by (cases "indexOf ys x = - 1") simp_all
  qed
qed

lemma indexOf_notin: "(indexOf xs x = - 1) = (x \<notin> set xs)"
proof (induction xs)
  case Nil
  then show ?case by simp
next
  case (Cons y ys)
  show ?case
  proof (cases "y = x")
    case True
    then show ?thesis by (simp del: indexOf.simps add: indexOf_Cons_eq)
  next
    case False
    have a: "indexOf (y # ys) x = (if indexOf ys x = - 1 then - 1 else indexOf ys x + 1)"
      using False by (rule indexOf_Cons_neq)
    have "- 1 \<le> indexOf ys x" by (rule indexOf_ge)
    then have "indexOf ys x + 1 \<noteq> - 1" by arith
    then show ?thesis using Cons False by (simp del: indexOf.simps add: a)
  qed
qed

lemma indexOf_first:
  "x \<in> set xs \<Longrightarrow>
     \<exists>i. indexOf xs x = int i \<and> i < length xs \<and> xs ! i = x \<and> (\<forall>j<i. xs ! j \<noteq> x)"
proof (induction xs)
  case Nil
  then show ?case by simp
next
  case (Cons y ys)
  show ?case
  proof (cases "y = x")
    case True
    then have "indexOf (y # ys) x = int 0 \<and> 0 < length (y # ys) \<and> (y # ys) ! 0 = x
                 \<and> (\<forall>j<0. (y # ys) ! j \<noteq> x)"
      by simp
    then show ?thesis by blast
  next
    case False
    with Cons.prems have "x \<in> set ys" by simp
    from Cons.IH [OF this] obtain i where
      i: "indexOf ys x = int i" "i < length ys" "ys ! i = x" "\<forall>j<i. ys ! j \<noteq> x"
      by blast
    have a: "indexOf (y # ys) x = (if indexOf ys x = - 1 then - 1 else indexOf ys x + 1)"
      using False by (rule indexOf_Cons_neq)
    have "indexOf (y # ys) x = int (Suc i)"
      unfolding a using i(1) by simp
    moreover have "\<forall>j<Suc i. (y # ys) ! j \<noteq> x"
    proof (intro allI impI)
      fix j assume "j < Suc i"
      then show "(y # ys) ! j \<noteq> x"
        using False i(4) by (cases j) simp_all
    qed
    moreover have "Suc i < length (y # ys)" using i(2) by simp
    moreover have "(y # ys) ! Suc i = x" using i(3) by simp
    ultimately show ?thesis by blast
  qed
qed

text \<open>
  C9. \<open>getIndex\<close> returns \<open>null\<close> exactly when the node has no parent; when the node
  has a parent whose children contain it, it returns the node's index there (the first
  position holding the node); and it throws \<open>node-not-found-in-parent\<close> exactly when
  the node has a parent whose children do not contain it.
\<close>

theorem getIndex_cases:
  "(getIndex n = Inr None \<longleftrightarrow> parent n = None)
   \<and> (\<forall>p. parent n = Some p \<and> node_id n \<in> set (children p) \<longrightarrow>
         (\<exists>i. getIndex n = Inr (Some (int i)) \<and> i < length (children p)
              \<and> children p ! i = node_id n \<and> (\<forall>j<i. children p ! j \<noteq> node_id n)))
   \<and> (getIndex n = Inl NodeNotFoundInParentError \<longleftrightarrow>
         (\<exists>p. parent n = Some p \<and> node_id n \<notin> set (children p)))"
proof (intro conjI allI impI)
  show "getIndex n = Inr None \<longleftrightarrow> parent n = None"
    by (cases "parent n") (simp_all add: getIndex_def Let_def)
next
  fix p
  assume a: "parent n = Some p \<and> node_id n \<in> set (children p)"
  then have "node_id n \<in> set (children p)" by simp
  from indexOf_first [OF this] obtain i where
    i: "indexOf (children p) (node_id n) = int i" "i < length (children p)"
       "children p ! i = node_id n" "\<forall>j<i. children p ! j \<noteq> node_id n"
    by blast
  have "getIndex n = Inr (Some (int i))"
    using a i(1) by (simp add: getIndex_def getChildIndex_def)
  then show "\<exists>i. getIndex n = Inr (Some (int i)) \<and> i < length (children p)
              \<and> children p ! i = node_id n \<and> (\<forall>j<i. children p ! j \<noteq> node_id n)"
    using i by blast
next
  show "getIndex n = Inl NodeNotFoundInParentError \<longleftrightarrow>
         (\<exists>p. parent n = Some p \<and> node_id n \<notin> set (children p))"
    by (cases "parent n") (simp_all add: getIndex_def getChildIndex_def Let_def indexOf_notin)
qed

theorem getIndex_cases_witness:
  "parent exampleChild = Some exampleParent
   \<and> node_id exampleChild \<in> set (children exampleParent)
   \<and> getIndex exampleChild = Inr (Some 1)
   \<and> (\<exists>i. getIndex exampleChild = Inr (Some (int i)) \<and> i < length (children exampleParent)
          \<and> children exampleParent ! i = node_id exampleChild)
   \<and> getIndex exampleOrphan = Inl NodeNotFoundInParentError"
proof -
  have h: "parent exampleChild = Some exampleParent \<and> node_id exampleChild \<in> set (children exampleParent)"
    by (simp add: exampleChild_def exampleParent_def)
  have "\<exists>i. getIndex exampleChild = Inr (Some (int i)) \<and> i < length (children exampleParent)
          \<and> children exampleParent ! i = node_id exampleChild
          \<and> (\<forall>j<i. children exampleParent ! j \<noteq> node_id exampleChild)"
    using getIndex_cases [of exampleChild] h by blast
  then have e: "\<exists>i. getIndex exampleChild = Inr (Some (int i)) \<and> i < length (children exampleParent)
          \<and> children exampleParent ! i = node_id exampleChild"
    by blast
  have v: "getIndex exampleChild = Inr (Some 1)"
    by (simp add: getIndex_def getChildIndex_def exampleChild_def exampleParent_def)
  have o: "getIndex exampleOrphan = Inl NodeNotFoundInParentError"
    by (simp add: getIndex_def getChildIndex_def exampleOrphan_def exampleParent_def)
  show ?thesis using h e v o by blast
qed

section \<open>Inserting into a node list\<close>

lemma validation_None: "(validation vs = None) = (\<forall>v\<in>set vs. instanceofNode v)"
  by (induction vs) auto

lemma validation_Some: "validation vs = Some e \<Longrightarrow> e = NodeListInsertNodesNotNode"
  by (induction vs) (auto split: if_splits)

lemma length_splice_insert: "length (splice_insert start items arr) = length arr + length items"
  by (simp add: splice_insert_def Let_def)

lemma splice_insert_in_range:
  "0 \<le> start \<Longrightarrow> start \<le> int (length arr) \<Longrightarrow>
     splice_insert start items arr = take (nat start) arr @ items @ drop (nat start) arr"
  by (simp add: splice_insert_def Let_def min_def)

lemma splice_insert_beyond:
  "int (length arr) < start \<Longrightarrow> splice_insert start items arr = arr @ items"
  by (simp add: splice_insert_def Let_def min_def)

lemma splice_insert_negative:
  "start < 0 \<Longrightarrow>
     splice_insert start items arr
       = take (nat (int (length arr) + start)) arr @ items @ drop (nat (int (length arr) + start)) arr"
  by (simp add: splice_insert_def Let_def max_def)

text \<open>
  C10, as stated, fails on two inputs. A generator that yields one node passes the
  validation and is spent by it, so the spread inserts nothing and the length does not
  grow. And an index beyond the list is clamped by \<open>splice\<close>: with index 5 and a list of
  one node, the inserted node stands at index 1.
\<close>

theorem insertNodes_counterexample:
  "insertNodes 0 (generatorOf [NodeInstance 1]) [NodeInstance 7] = (Inr (), [NodeInstance 7])
   \<and> insertNodes 5 (arrayOf [NodeInstance 1]) [NodeInstance 7]
       = (Inr (), [NodeInstance 7, NodeInstance 1])"
  by (simp add: insertNodes_def generatorOf_def arrayOf_def splice_insert_def)

text \<open>
  C10, amended. For every iterable whose first traversal yields a value that is not a
  \<open>Node\<close> instance, \<open>insertNodes\<close> throws \<open>nodelist-insertNodes-not-node\<close> and the node
  list is as it was: every value is validated before the splice. When all values are
  nodes and the iterable yields them again on a second traversal (an array does), the
  call returns and the length grows by their number; they stand at the index when it
  lies within the list, at the end when the index is beyond it, and at the index
  counted back from the end (not before the start) when it is negative.
\<close>

theorem insertNodes_validates_first:
  "((\<exists>v\<in>set (first_pass nodes). \<not> instanceofNode v) \<longrightarrow>
      insertNodes index nodes this_nodes = (Inl NodeListInsertNodesNotNode, this_nodes))
   \<and> ((\<forall>v\<in>set (first_pass nodes). instanceofNode v) \<and> second_pass nodes = first_pass nodes \<longrightarrow>
        fst (insertNodes index nodes this_nodes) = Inr ()
        \<and> length (snd (insertNodes index nodes this_nodes))
            = length this_nodes + length (first_pass nodes)
        \<and> (0 \<le> index \<and> index \<le> int (length this_nodes) \<longrightarrow>
             snd (insertNodes index nodes this_nodes)
               = take (nat index) this_nodes @ first_pass nodes @ drop (nat index) this_nodes)
        \<and> (int (length this_nodes) < index \<longrightarrow>
             snd (insertNodes index nodes this_nodes) = this_nodes @ first_pass nodes)
        \<and> (index < 0 \<longrightarrow>
             snd (insertNodes index nodes this_nodes)
               = take (nat (int (length this_nodes) + index)) this_nodes @ first_pass nodes
                   @ drop (nat (int (length this_nodes) + index)) this_nodes))"
proof (intro conjI impI)
  assume "\<exists>v\<in>set (first_pass nodes). \<not> instanceofNode v"
  then have "validation (first_pass nodes) \<noteq> None"
    by (simp add: validation_None)
  then obtain e where "validation (first_pass nodes) = Some e" by blast
  then show "insertNodes index nodes this_nodes = (Inl NodeListInsertNodesNotNode, this_nodes)"
    using validation_Some by (simp add: insertNodes_def)
next
  assume a: "(\<forall>v\<in>set (first_pass nodes). instanceofNode v) \<and> second_pass nodes = first_pass nodes"
  then have v: "validation (first_pass nodes) = None" by (simp add: validation_None)
  from a have s: "second_pass nodes = first_pass nodes" by simp
  show "fst (insertNodes index nodes this_nodes) = Inr ()"
    using v by (simp add: insertNodes_def)
  show "length (snd (insertNodes index nodes this_nodes))
          = length this_nodes + length (first_pass nodes)"
    using v s by (simp add: insertNodes_def length_splice_insert)
  {
    assume "0 \<le> index \<and> index \<le> int (length this_nodes)"
    then show "snd (insertNodes index nodes this_nodes)
                 = take (nat index) this_nodes @ first_pass nodes @ drop (nat index) this_nodes"
      using v s by (simp add: insertNodes_def splice_insert_in_range)
  }
  {
    assume "int (length this_nodes) < index"
    then show "snd (insertNodes index nodes this_nodes) = this_nodes @ first_pass nodes"
      using v s by (simp add: insertNodes_def splice_insert_beyond)
  }
  {
    assume "index < 0"
    then show "snd (insertNodes index nodes this_nodes)
                 = take (nat (int (length this_nodes) + index)) this_nodes @ first_pass nodes
                     @ drop (nat (int (length this_nodes) + index)) this_nodes"
      using v s by (simp add: insertNodes_def splice_insert_negative)
  }
qed

theorem insertNodes_validates_first_witness:
  "(\<exists>v\<in>set (first_pass (generatorOf [NodeInstance 1, NotANode JNull])). \<not> instanceofNode v)
   \<and> insertNodes 0 (generatorOf [NodeInstance 1, NotANode JNull]) [NodeInstance 7]
       = (Inl NodeListInsertNodesNotNode, [NodeInstance 7])
   \<and> validation (first_pass (arrayOf [NodeInstance 1, NodeInstance 2])) = None
   \<and> second_pass (arrayOf [NodeInstance 1, NodeInstance 2])
       = first_pass (arrayOf [NodeInstance 1, NodeInstance 2])
   \<and> snd (insertNodes 1 (arrayOf [NodeInstance 1, NodeInstance 2]) [NodeInstance 7, NodeInstance 8])
       = [NodeInstance 7, NodeInstance 1, NodeInstance 2, NodeInstance 8]
   \<and> snd (insertNodes 5 (arrayOf [NodeInstance 1, NodeInstance 2]) [NodeInstance 7, NodeInstance 8])
       = [NodeInstance 7, NodeInstance 8, NodeInstance 1, NodeInstance 2]
   \<and> snd (insertNodes (- 1) (arrayOf [NodeInstance 1, NodeInstance 2]) [NodeInstance 7, NodeInstance 8])
       = [NodeInstance 7, NodeInstance 1, NodeInstance 2, NodeInstance 8]"
proof -
  let ?g = "generatorOf [NodeInstance 1, NotANode JNull]"
  let ?a = "arrayOf [NodeInstance 1, NodeInstance 2]"
  let ?l = "[NodeInstance 7, NodeInstance 8]"
  have a: "\<exists>v\<in>set (first_pass ?g). \<not> instanceofNode v"
    by (simp add: generatorOf_def)
  have b: "(\<forall>v\<in>set (first_pass ?a). instanceofNode v) \<and> second_pass ?a = first_pass ?a"
    by (simp add: arrayOf_def)
  have f: "first_pass ?a = [NodeInstance 1, NodeInstance 2]"
    by (simp add: arrayOf_def)
  have "insertNodes 0 ?g [NodeInstance 7] = (Inl NodeListInsertNodesNotNode, [NodeInstance 7])"
    using insertNodes_validates_first [of ?g 0 "[NodeInstance 7]"] a by blast
  moreover have "snd (insertNodes 1 ?a ?l) = take (nat 1) ?l @ first_pass ?a @ drop (nat 1) ?l"
    using insertNodes_validates_first [of ?a 1 ?l] b by simp
  moreover have "snd (insertNodes 5 ?a ?l) = ?l @ first_pass ?a"
    using insertNodes_validates_first [of ?a 5 ?l] b by simp
  moreover have "snd (insertNodes (- 1) ?a ?l)
                   = take (nat (int (length ?l) + (- 1))) ?l @ first_pass ?a
                       @ drop (nat (int (length ?l) + (- 1))) ?l"
    using insertNodes_validates_first [of ?a "- 1" ?l] b by simp
  ultimately show ?thesis
    using a b f by (simp add: validation_None)
qed

section \<open>Comparing paths\<close>

lemma compareArrays_loop_refl: "compareArrays_loop i m a a = None"
proof (induction "m - i" arbitrary: i)
  case 0
  then show ?case
    by (subst compareArrays_loop.simps) simp
next
  case (Suc k)
  then have "compareArrays_loop (Suc i) m a a = None"
    by simp
  then show ?case
    by (subst compareArrays_loop.simps) simp
qed

lemma compareArrays_refl: "compareArrays a a = SAME"
  by (simp add: compareArrays_def compareArrays_loop_refl)

text \<open>The examples of the function's documentation.\<close>

lemma compareArrays_examples:
  "compareArrays [0, 2::nat] [0, 2] = SAME"
  "compareArrays [0, 2::nat] [0, 2, 1] = PREFIX"
  "compareArrays [0, 2::nat] [0] = EXTENSION"
  "compareArrays [0, 2::nat] [1, 2] = Differ 0"
  "compareArrays [0, 2::nat] [0, 1] = Differ 1"
  by (simp_all add: compareArrays_def compareArrays_loop.simps)

section \<open>A live position under insertions\<close>

lemmas transform_insert_eval =
  transform_insert_def LivePosition_def rangeOfPaths_def getTransformedByInsertion_def
  getParentPath_def offset_def compareArrays_def compareArrays_loop.simps Let_def

text \<open>
  The model against the tests of \<open>LivePosition\<close> that fire an \<open>insert\<close> change: the three
  under "should get transformed if" and the four under "should not get transformed if".
\<close>

lemma LivePosition_insertion_tests:
  "path (transform_insert (LivePosition ''root'' [1, 4, 6] None) (rangeOfPaths ''root'' [1, 4, 0] [1, 4, 3])) = [1, 4, 9]"
  "path (transform_insert (LivePosition ''root'' [1, 4, 6] None) (rangeOfPaths ''root'' [1, 4, 6] [1, 4, 9])) = [1, 4, 9]"
  "path (transform_insert (LivePosition ''root'' [1, 4, 6] None) (rangeOfPaths ''root'' [1, 0] [1, 2])) = [1, 6, 6]"
  "path (transform_insert (LivePosition ''root'' [1, 4, 6] None) (rangeOfPaths ''root'' [1, 4, 7] [1, 4, 9])) = [1, 4, 6]"
  "path (transform_insert (LivePosition ''root'' [1, 4, 6] (Some STICKS_TO_PREVIOUS)) (rangeOfPaths ''root'' [1, 4, 6] [1, 4, 9])) = [1, 4, 6]"
  "path (transform_insert (LivePosition ''root'' [1, 4, 6] None) (rangeOfPaths ''root'' [1, 5] [1, 7])) = [1, 4, 6]"
  "path (transform_insert (LivePosition ''root'' [1, 4, 6] None) (rangeOfPaths ''otherRoot'' [1, 4, 0] [1, 4, 4])) = [1, 4, 6]"
  by (simp_all add: transform_insert_eval)

text \<open>
  C6. When \<open>n\<close> offset units are inserted exactly at a live position, a position that
  sticks to the previous content is unchanged, and a position that sticks to the next
  content, which is the default, has its offset moved forward by \<open>n\<close>.
\<close>

theorem livePosition_stickiness:
  assumes "path lp \<noteq> []"
  shows "(stickiness lp = STICKS_TO_PREVIOUS \<longrightarrow>
            transform_insert lp (rangeOfPaths (root lp) (path lp) (butlast (path lp) @ [last (path lp) + n])) = lp)
       \<and> (stickiness lp = STICKS_TO_NEXT \<longrightarrow>
            path (transform_insert lp (rangeOfPaths (root lp) (path lp) (butlast (path lp) @ [last (path lp) + n])))
              = butlast (path lp) @ [last (path lp) + n])
       \<and> stickiness (LivePosition r p None) = STICKS_TO_NEXT"
  using assms
  by (simp add: transform_insert_def rangeOfPaths_def getTransformedByInsertion_def getParentPath_def
        offset_def compareArrays_refl Let_def LivePosition_def)

theorem livePosition_stickiness_witness:
  "path (LivePosition ''root'' [1, 4, 6] (Some STICKS_TO_PREVIOUS)) \<noteq> []
   \<and> transform_insert (LivePosition ''root'' [1, 4, 6] (Some STICKS_TO_PREVIOUS))
         (rangeOfPaths ''root'' [1, 4, 6] [1, 4, 9])
       = LivePosition ''root'' [1, 4, 6] (Some STICKS_TO_PREVIOUS)
   \<and> path (transform_insert (LivePosition ''root'' [1, 4, 6] None) (rangeOfPaths ''root'' [1, 4, 6] [1, 4, 9]))
       = [1, 4, 9]"
proof -
  have a: "path (LivePosition ''root'' [1, 4, 6] (Some STICKS_TO_PREVIOUS)) \<noteq> []"
    by (simp add: LivePosition_def)
  have b: "path (LivePosition ''root'' [1, 4, 6] None) \<noteq> []"
    by (simp add: LivePosition_def)
  have "transform_insert (LivePosition ''root'' [1, 4, 6] (Some STICKS_TO_PREVIOUS))
         (rangeOfPaths ''root'' [1, 4, 6] [1, 4, 9])
       = LivePosition ''root'' [1, 4, 6] (Some STICKS_TO_PREVIOUS)"
    using livePosition_stickiness [OF a, of 3] by (simp add: LivePosition_def)
  moreover have "path (transform_insert (LivePosition ''root'' [1, 4, 6] None) (rangeOfPaths ''root'' [1, 4, 6] [1, 4, 9]))
       = [1, 4, 9]"
    using livePosition_stickiness [OF b, of 3] by (simp add: LivePosition_def)
  ultimately show ?thesis using a by blast
qed

section \<open>Removing a flat range\<close>

lemmas utils_remove_eval =
  utils_remove_def isFlat_def rangeOfPaths_def getParentPath_def offset_def
  compareArrays_def compareArrays_loop.simps removeChildren_def

text \<open>
  The model against the tests of \<open>_remove\<close>: a range of whole nodes, a range that starts
  and ends inside text nodes, a range whose removal lets two text nodes merge, and a
  range that is not flat.
\<close>

lemma utils_remove_tests:
  "utils_remove testRoot (rangeOfPaths ''main'' [3] [6])
     = Inr ([Text ''foo'' [], Element ''image'' [(''src'', JStr ''img.jpg'')] [], Text ''xyz'' []],
            [Text ''bar'' [(''bold'', JBool True)]])"
  "utils_remove testRoot (rangeOfPaths ''main'' [1] [5])
     = Inr ([Text ''f'' [], Text ''r'' [(''bold'', JBool True)],
             Element ''image'' [(''src'', JStr ''img.jpg'')] [], Text ''xyz'' []],
            [Text ''oo'' [], Text ''ba'' [(''bold'', JBool True)]])"
  "utils_remove testRoot (rangeOfPaths ''main'' [3] [7])
     = Inr ([Text ''fooxyz'' []],
            [Text ''bar'' [(''bold'', JBool True)], Element ''image'' [(''src'', JStr ''img.jpg'')] []])"
  "utils_remove testRoot (rangeOfPaths ''main'' [0] [1, 2])
     = Inl (NonFlatRangeError ''operation-utils-remove-range-not-flat'')"
  by (simp_all add: utils_remove_eval testRoot_def)

text \<open>
  C1, as stated, fails: removing the flat range \<open>[3,7)\<close> from
  \<open>"foo" + Text("bar", {bold:true}) + Element("image") + "xyz"\<close> does not leave
  \<open>"foo" + image + "xyz"\<close>. Offset 6 is the image, so the range takes it too.
\<close>

theorem remove_3_7_counterexample:
  "\<not> (\<exists>removed. utils_remove scenarioRoot (rangeOfPaths ''main'' [3] [7])
         = Inr ([Text ''foo'' [], Element ''image'' [] [], Text ''xyz'' []], removed))"
  by (simp add: utils_remove_eval scenarioRoot_def)

text \<open>
  C1, amended. Removing the flat range \<open>[3,7)\<close> from that document detaches \<open>"bar"\<close> and
  the image and leaves the single text node \<open>"fooxyz"\<close>: \<open>"foo"\<close> and \<open>"xyz"\<close> come to
  touch, have the same (empty) attributes and are merged. It is the flat range \<open>[3,6)\<close>
  whose removal yields \<open>"foo" + image + "xyz"\<close>, the two text nodes distinct.
\<close>

theorem remove_3_7_merges:
  "utils_remove scenarioRoot (rangeOfPaths rt [3] [7])
     = Inr ([Text ''fooxyz'' []], [Text ''bar'' [(''bold'', JBool True)], Element ''image'' [] []])
   \<and> utils_remove scenarioRoot (rangeOfPaths rt [3] [6])
     = Inr ([Text ''foo'' [], Element ''image'' [] [], Text ''xyz'' []],
            [Text ''bar'' [(''bold'', JBool True)]])"
  by (simp add: utils_remove_eval scenarioRoot_def)

end
